theory Spec2Isabelle
  imports Complex_Main
begin

section \<open>PV Water Heating Manager: numbers and errors\<close>

text \<open>
  The manager (\<^verbatim>\<open>pv_water_heating_manager/manager.py\<close>) computes with Python floats.
  They are modelled as exact reals: comparisons and arithmetic are those of the source
  expressions, without binary rounding, NaN or infinities. Python ints are \<open>int\<close>.
  A leading underscore of a source name is dropped (\<^verbatim>\<open>_calculate_boiler_heat\<close> is
  \<open>calculate_boiler_heat\<close>), since an Isabelle name cannot start with one.
\<close>

datatype py_error = TypeError | ValueError

text \<open>
  Rounding to the nearest integer, a tie going to the even one, as Python's \<^verbatim>\<open>round\<close>
  and the microsecond rounding of \<^verbatim>\<open>timedelta\<close> do. \<^verbatim>\<open>round(x, 2)\<close> is the nearest
  multiple of 0.01.
\<close>

definition py_round :: "real \<Rightarrow> int" where
  "py_round y =
     (let f = \<lfloor>y\<rfloor>; d = y - of_int f in
      if d < 1 / 2 then f else if 1 / 2 < d then f + 1
      else if even f then f else f + 1)"

definition py_round2 :: "real \<Rightarrow> real" where
  "py_round2 x = of_int (py_round (x * 100)) / 100"

text \<open>Truth value of an optional int: \<^verbatim>\<open>not v\<close> holds for \<^verbatim>\<open>None\<close> and for \<^verbatim>\<open>0\<close>.\<close>

definition py_not :: "int option \<Rightarrow> bool" where
  "py_not v = (case v of None \<Rightarrow> True | Some n \<Rightarrow> n = 0)"

section \<open>ThermalModel\<close>

text \<open>
  \<^verbatim>\<open>_calculate_boiler_heat(boiler_power, boiler_volume, water_temp, temp_to_heat)\<close>,
  manager.py lines 617-662. The two guards come first and in the source's order; the
  comparison \<^verbatim>\<open>water_temp >= temp_to_heat\<close> raises TypeError when an operand is None.
  The duration is computed from the unrounded energy.
\<close>

definition calculate_boiler_heat ::
  "int option \<Rightarrow> int option \<Rightarrow> real option \<Rightarrow> real option \<Rightarrow> py_error + (real \<times> real)" where
  "calculate_boiler_heat boiler_power boiler_volume water_temp temp_to_heat =
     (if py_not boiler_volume \<or> py_not boiler_power then Inr (0, 0)
      else (case (water_temp, temp_to_heat) of
              (Some w, Some t) \<Rightarrow>
                if t \<le> w then Inr (0, 0)
                else (let Pt = (4.186 * of_int (the boiler_volume) * (t - w)) / 3600;
                          Pt_time = Pt / (of_int (the boiler_power) / 1000) * 60
                      in Inr (py_round2 Pt, py_round2 Pt_time))
            | _ \<Rightarrow> Inl TypeError))"

text \<open>
  \<^verbatim>\<open>_calculate_battery_energy(battery_capacity, battery_soc, battery_to_charge=80)\<close>,
  manager.py lines 664-693. The capacity is a float at the only call site
  (\<^verbatim>\<open>battery_capacity * battery_threshold_bottom / 100\<close>).
\<close>

definition calculate_battery_energy :: "real \<Rightarrow> real \<Rightarrow> real \<Rightarrow> real" where
  "calculate_battery_energy battery_capacity battery_soc battery_to_charge =
     (if battery_capacity = 0 then 0
      else if battery_to_charge \<le> battery_soc then 0
      else py_round2 (battery_capacity / 1000 * (battery_to_charge - battery_soc) / 100))"

section \<open>Dates and times\<close>

text \<open>
  A \<^verbatim>\<open>datetime\<close> is a calendar day (its proleptic ordinal) and a time of day in
  microseconds since midnight (0 up to 86399999999); a \<^verbatim>\<open>time\<close> is the latter alone and
  a \<^verbatim>\<open>timedelta\<close> a number of microseconds. All datetimes of the manager carry the
  same \<^verbatim>\<open>tzinfo\<close> (\<^verbatim>\<open>replace(tzinfo=datetime_now.tzinfo)\<close>), so Python compares and
  subtracts their wall-clock fields.
\<close>

record datetime =
  ordinal :: int
  micro_of_day :: int

definition day_micros :: int where
  "day_micros = 86400000000"

definition combine :: "int \<Rightarrow> int \<Rightarrow> datetime" where
  "combine d t = \<lparr>ordinal = d, micro_of_day = t\<rparr>"

definition to_micros :: "datetime \<Rightarrow> int" where
  "to_micros dt = ordinal dt * day_micros + micro_of_day dt"

definition of_micros :: "int \<Rightarrow> datetime" where
  "of_micros n = \<lparr>ordinal = n div day_micros, micro_of_day = n mod day_micros\<rparr>"

text \<open>\<^verbatim>\<open>timedelta(minutes=m)\<close> for a float \<open>m\<close>, in microseconds.\<close>

definition timedelta_minutes :: "real \<Rightarrow> int" where
  "timedelta_minutes m = py_round (m * 60000000)"

text \<open>\<^verbatim>\<open>a - b\<close> of two datetimes, \<^verbatim>\<open>dt - td\<close> and \<^verbatim>\<open>dt + td\<close>.\<close>

definition datetime_diff :: "datetime \<Rightarrow> datetime \<Rightarrow> int" where
  "datetime_diff a b = to_micros a - to_micros b"

definition datetime_minus :: "datetime \<Rightarrow> int \<Rightarrow> datetime" where
  "datetime_minus dt td = of_micros (to_micros dt - td)"

definition datetime_plus :: "datetime \<Rightarrow> int \<Rightarrow> datetime" where
  "datetime_plus dt td = of_micros (to_micros dt + td)"

text \<open>
  The \<^verbatim>\<open>.seconds\<close> attribute of a timedelta: Python normalises a timedelta to days,
  seconds (0 to 86399) and microseconds (0 to 999999), the days carrying the sign.
\<close>

definition timedelta_seconds :: "int \<Rightarrow> int" where
  "timedelta_seconds td = (td div 1000000) mod 86400"

definition time_hour :: "int \<Rightarrow> int" where
  "time_hour t = t div 3600000000"

definition time_minute :: "int \<Rightarrow> int" where
  "time_minute t = (t div 60000000) mod 60"

text \<open>
  \<^verbatim>\<open>_planned_to_past(planned_datetime)\<close>, manager.py lines 735-754; the current local
  time \<^verbatim>\<open>dt_util.as_local(dt_util.utcnow())\<close> is the first argument.
\<close>

definition planned_to_past :: "datetime \<Rightarrow> datetime \<Rightarrow> bool" where
  "planned_to_past datetime_now planned_datetime =
     (let time_now = micro_of_day datetime_now;
          planned_time_new = micro_of_day planned_datetime
      in planned_time_new \<le> time_now
         \<or> real_of_int (timedelta_seconds (datetime_diff datetime_now planned_datetime)) / 60 < 5)"

section \<open>Python built-ins on strings\<close>

text \<open>
  A recorded state is a Python string; the model has the strings of code points below
  256, one \<open>char\<close> per code point. \<^verbatim>\<open>str.isdigit\<close> holds for a non-empty string of
  characters of numeric type Digit or Decimal: below 256 these are 0 to 9 and the
  superscripts two, three and one (code points 178, 179, 185).
\<close>

definition is_decimal :: "char \<Rightarrow> bool" where
  "is_decimal c = (48 \<le> (of_char c :: nat) \<and> (of_char c :: nat) \<le> 57)"

definition digit_value :: "char \<Rightarrow> nat" where
  "digit_value c = of_char c - 48"

definition py_isdigit :: "string \<Rightarrow> bool" where
  "py_isdigit s =
     (s \<noteq> [] \<and> list_all (\<lambda>c. is_decimal c \<or> (of_char c :: nat) \<in> {178, 179, 185}) s)"

text \<open>
  \<^verbatim>\<open>float(s)\<close> for a string: surrounding whitespace is dropped; then an optional sign, a
  number \<^verbatim>\<open>[digitpart] "." digitpart | digitpart ["."]\<close> and an optional exponent
  \<^verbatim>\<open>("e" | "E") [sign] digitpart\<close>, where a digitpart is decimal digits with single
  underscores between them. Any other string raises ValueError, here \<open>None\<close>. The
  spellings of infinity and NaN, which \<^verbatim>\<open>float\<close> accepts too, denote no real number
  and are not states of the model.
\<close>

definition is_space :: "char \<Rightarrow> bool" where
  "is_space c = (let n = (of_char c :: nat) in
                 (9 \<le> n \<and> n \<le> 13) \<or> (28 \<le> n \<and> n \<le> 32) \<or> n = 133 \<or> n = 160)"

fun digits_from :: "nat \<Rightarrow> string \<Rightarrow> nat option" where
  "digits_from acc [] = Some acc"
| "digits_from acc [c] = (if is_decimal c then Some (acc * 10 + digit_value c) else None)"
| "digits_from acc (c # d # ds) =
     (if is_decimal c then digits_from (acc * 10 + digit_value c) (d # ds)
      else if c = CHR ''_'' \<and> is_decimal d then digits_from (acc * 10 + digit_value d) ds
      else None)"

definition digitpart :: "string \<Rightarrow> nat option" where
  "digitpart s =
     (case s of [] \<Rightarrow> None
      | c # cs \<Rightarrow> if is_decimal c then digits_from (digit_value c) cs else None)"

text \<open>
  The mantissa from the text before the point and the text from the point on, and the
  exponent from the text from the letter e on.
\<close>

definition float_mantissa :: "string \<Rightarrow> string \<Rightarrow> real option" where
  "float_mantissa ip fp =
     (case fp of
        [] \<Rightarrow> map_option real (digitpart ip)
      | _ # fracpart \<Rightarrow>
          if ip = [] \<and> fracpart = [] then None
          else (case (if ip = [] then Some 0 else digitpart ip,
                      if fracpart = [] then Some 0 else digitpart fracpart) of
                  (Some i, Some f) \<Rightarrow>
                    Some (real i + real f / 10 ^ length (filter is_decimal fracpart))
                | _ \<Rightarrow> None))"

definition float_exponent :: "string \<Rightarrow> int option" where
  "float_exponent rest =
     (case rest of
        [] \<Rightarrow> Some 0
      | _ # ex \<Rightarrow>
          (case ex of
             [] \<Rightarrow> None
           | c # cs \<Rightarrow>
               if c = CHR ''-'' then map_option (\<lambda>n. - int n) (digitpart cs)
               else if c = CHR ''+'' then map_option int (digitpart cs)
               else map_option int (digitpart ex)))"

definition py_float :: "string \<Rightarrow> real option" where
  "py_float s =
     (let t = rev (dropWhile is_space (rev (dropWhile is_space s)));
          neg = (case t of [] \<Rightarrow> False | c # _ \<Rightarrow> c = CHR ''-'');
          u = (case t of [] \<Rightarrow> []
               | c # cs \<Rightarrow> if c = CHR ''-'' \<or> c = CHR ''+'' then cs else t);
          mant = takeWhile (\<lambda>c. c \<noteq> CHR ''e'' \<and> c \<noteq> CHR ''E'') u;
          rest = dropWhile (\<lambda>c. c \<noteq> CHR ''e'' \<and> c \<noteq> CHR ''E'') u;
          ip = takeWhile (\<lambda>c. c \<noteq> CHR ''.'') mant;
          fp = dropWhile (\<lambda>c. c \<noteq> CHR ''.'') mant
      in case (float_mantissa ip fp, float_exponent rest) of
           (Some m, Some ex) \<Rightarrow>
             Some ((if neg then - 1 else 1)
                   * (if 0 \<le> ex then m * 10 ^ nat ex else m / 10 ^ nat (- ex)))
         | _ \<Rightarrow> None)"

section \<open>SensorAggregator\<close>

text \<open>
  The helper \<^verbatim>\<open>_is_float(value)\<close> of \<^verbatim>\<open>_get_sensor_history\<close>, manager.py lines
  556-562: whether \<^verbatim>\<open>float(value)\<close> returns rather than raises ValueError.
\<close>

definition is_float :: "string \<Rightarrow> bool" where
  "is_float val = (case py_float val of None \<Rightarrow> False | Some _ \<Rightarrow> True)"

text \<open>
  The comprehension \<^verbatim>\<open>[float(s) for s in states if s.isdigit() or _is_float(s)]\<close>,
  manager.py line 592, state by state: the \<^verbatim>\<open>float(s)\<close> of a state that passes the
  test raises ValueError when the state does not parse.
\<close>

fun numeric_states :: "string list \<Rightarrow> py_error + real list" where
  "numeric_states [] = Inr []"
| "numeric_states (s # states) =
     (if py_isdigit s \<or> is_float s then
        (case py_float s of
           None \<Rightarrow> Inl ValueError
         | Some v \<Rightarrow>
             (case numeric_states states of
                Inl err \<Rightarrow> Inl err
              | Inr vs \<Rightarrow> Inr (v # vs)))
      else numeric_states states)"

text \<open>
  \<^verbatim>\<open>np.percentile(a, q)\<close> is numpy's, called at manager.py line 600 with its default
  method, linear interpolation between the two order statistics around the position
  \<open>q / 100 * (n - 1)\<close>; a \<open>q\<close> outside 0..100 raises ValueError. It is only called on
  a non-empty list.
\<close>

definition linear_percentile :: "real list \<Rightarrow> int \<Rightarrow> real" where
  "linear_percentile a q =
     (let s = sort a;
          h = of_int q / 100 * of_nat (length s - 1);
          i = nat \<lfloor>h\<rfloor>;
          g = h - of_int \<lfloor>h\<rfloor>;
          lo = s ! i;
          hi = s ! min (i + 1) (length s - 1)
      in lo + g * (hi - lo))"

definition np_percentile :: "real list \<Rightarrow> int \<Rightarrow> py_error + real" where
  "np_percentile a q =
     (if q < 0 \<or> 100 < q then Inl ValueError else Inr (linear_percentile a q))"

text \<open>Truthiness of the \<^verbatim>\<open>percentile\<close> argument: \<^verbatim>\<open>None\<close> and \<^verbatim>\<open>0\<close> are false.\<close>

definition py_truthy :: "int option \<Rightarrow> bool" where
  "py_truthy v = (case v of None \<Rightarrow> False | Some n \<Rightarrow> n \<noteq> 0)"

text \<open>
  \<^verbatim>\<open>_get_sensor_history\<close>, manager.py lines 585-615, from the point where the recorder
  has answered: \<open>sensor_history\<close> is \<^verbatim>\<open>sensor_history.get(entity_id)\<close>, the states of
  the window or \<^verbatim>\<open>None\<close> when the entity has no entry. The window (\<^verbatim>\<open>s_time\<close>,
  \<^verbatim>\<open>mins\<close>, \<^verbatim>\<open>secs\<close>) only selects what the recorder returns.
\<close>

definition get_sensor_history ::
  "string list option \<Rightarrow> bool \<Rightarrow> int option \<Rightarrow> py_error + real option" where
  "get_sensor_history sensor_history min_val percentile =
     (case sensor_history of
        None \<Rightarrow> Inr None
      | Some states \<Rightarrow>
          if states = [] then Inr None
          else
            (case numeric_states states of
               Inl err \<Rightarrow> Inl err
             | Inr numeric \<Rightarrow>
                 if numeric = [] then Inr None
                 else if py_truthy percentile then
                   (case np_percentile numeric (the percentile) of
                      Inl err \<Rightarrow> Inl err
                    | Inr percentile_value \<Rightarrow> Inr (Some (py_round2 percentile_value)))
                 else if min_val then Inr (Some (py_round2 (Min (set numeric))))
                 else Inr (Some (py_round2 (sum_list numeric / of_nat (length numeric))))))"

section \<open>Configuration, shared state and the actuator\<close>

text \<open>
  The entries of \<^verbatim>\<open>self._entry.data\<close> the manager reads, after the \<^verbatim>\<open>int(...)\<close>
  conversions of the source. Field names carry the prefix \<open>conf\<close>.
\<close>

record config =
  conf_boiler_power :: int
  conf_boiler_volume :: int
  conf_battery_soc_top :: int
  conf_battery_soc_bottom :: int
  conf_grid_threshold :: int
  conf_battery_capacity :: int
  conf_temp_variable :: real
  conf_boiler_min_temp :: real
  conf_solar_conf_mode :: string
  conf_phase :: "int option"

text \<open>
  The two service calls of \<^verbatim>\<open>_boiler_power\<close>: \<^verbatim>\<open>climate.set_temperature\<close> on the
  thermostat and \<^verbatim>\<open>select.select_option\<close> on the mode selector.
\<close>

datatype service_call = SetTemperature "real option" | SelectOption string

text \<open>
  The callbacks the scheduler registers, and when the host fires them: once at a point
  in time (\<^verbatim>\<open>async_track_point_in_utc_time\<close>) or every day at hour:minute:00
  (\<^verbatim>\<open>async_track_time_change\<close>).
\<close>

datatype callback = PlanStartNightPreHeating | StartNightPreHeating | EndPreHeating

datatype trigger = PointInTime datetime | TimeChange int int

text \<open>
  \<^verbatim>\<open>hass.data[DOMAIN]\<close> (initialised in \<^verbatim>\<open>__init__.py\<close> lines 57-64) with the state of
  the feature switch and of the status sensor, and the part of the host the manager acts
  on: the listeners that are pending, each under the handle its registration returned,
  and the service calls made so far, oldest first. A stored event is the handle of a
  registration, \<open>None\<close> as long as none was stored.
\<close>

record hass_data =
  night_heating_event :: "nat option"
  night_heating_calc_event :: "nat option"
  night_heating_planned :: bool
  night_heating_calc_planned :: bool
  night_heating_canceled :: bool
  night_preheating :: bool
  boiler_power_on :: bool
  night_heating_switch :: bool
  manager_status_sensor :: string
  listeners :: "(nat \<times> callback \<times> trigger) list"
  next_handle :: nat
  service_calls :: "service_call list"

text \<open>
  Registering a listener returns a fresh handle. Calling a stored handle unsubscribes
  its listener, and does nothing when it has fired or was unsubscribed before; calling
  a stored \<^verbatim>\<open>None\<close> raises TypeError, which every call site suppresses
  (\<^verbatim>\<open>contextlib.suppress(KeyError), contextlib.suppress(TypeError)\<close>).
\<close>

definition track :: "callback \<Rightarrow> trigger \<Rightarrow> hass_data \<Rightarrow> nat \<times> hass_data" where
  "track cb tr d =
     (next_handle d,
      d\<lparr>listeners := listeners d @ [(next_handle d, cb, tr)],
        next_handle := Suc (next_handle d)\<rparr>)"

definition call_handle :: "nat option \<Rightarrow> hass_data \<Rightarrow> hass_data" where
  "call_handle ev d =
     (case ev of
        None \<Rightarrow> d
      | Some h \<Rightarrow> d\<lparr>listeners := filter (\<lambda>l. fst l \<noteq> h) (listeners d)\<rparr>)"

text \<open>
  \<^verbatim>\<open>_boiler_power(power, temp=None)\<close>, manager.py lines 695-733, here
  \<open>boiler_power_cmd\<close> (the configuration has a \<^verbatim>\<open>boiler_power\<close> of its own).
\<close>

definition boiler_power_cmd :: "bool \<Rightarrow> real option \<Rightarrow> hass_data \<Rightarrow> hass_data" where
  "boiler_power_cmd pwr temp d =
     (if pwr then
        d\<lparr>service_calls := service_calls d @ [SetTemperature temp, SelectOption ''MANUAL''],
          boiler_power_on := True\<rparr>
      else
        d\<lparr>service_calls := service_calls d @ [SelectOption ''ANTIFREEZE''],
          boiler_power_on := False\<rparr>)"

text \<open>The service calls made between a state and a later one.\<close>

definition commands_issued :: "hass_data \<Rightarrow> hass_data \<Rightarrow> service_call list" where
  "commands_issued d d' = drop (length (service_calls d)) (service_calls d')"

section \<open>BoilerHysteresisController\<close>

text \<open>
  What one tick of \<^verbatim>\<open>boiler_logic\<close> reads (manager.py lines 91-102): the two history
  statistics are results of \<^verbatim>\<open>_get_sensor_history\<close> and may be \<^verbatim>\<open>None\<close>; the other
  readings are the floats and strings \<^verbatim>\<open>_get_sensor_state\<close> returned.
\<close>

record sensors =
  sens_grid_power :: real
  sens_critical_loads_history :: "real option"
  sens_pv_power_history :: "real option"
  sens_critical_loads :: real
  sens_battery_soc :: real
  sens_boiler_heating :: string
  sens_heating_temp :: real

text \<open>
  \<^verbatim>\<open>boiler_logic\<close>, manager.py lines 104-182. The result is the exception the tick ended
  with, if any, and the state it left. An arithmetic or comparison operand that is
  \<^verbatim>\<open>None\<close> raises TypeError; in each PV test both statistics are operands of the first
  comparison.
\<close>

definition boiler_logic :: "config \<Rightarrow> sensors \<Rightarrow> hass_data \<Rightarrow> py_error option \<times> hass_data" where
  "boiler_logic e r d =
     (let boiler_pwr = real_of_int (conf_boiler_power e);
          battery_top_threshold = real_of_int (conf_battery_soc_top e);
          battery_bottom_threshold = real_of_int (conf_battery_soc_bottom e);
          grid_threshold = real_of_int (conf_grid_threshold e);
          critical_loads = sens_critical_loads r
      in
      if boiler_power_on d then
        if sens_battery_soc r < battery_bottom_threshold then
          (None, boiler_power_cmd False None d)
        else if grid_threshold < sens_grid_power r then
          (None, boiler_power_cmd False None d)
        else if sens_boiler_heating r = ''off'' then
          (case (sens_pv_power_history r, sens_critical_loads_history r) of
             (Some pv_power_history, Some critical_loads_history) \<Rightarrow>
               if pv_power_history < 0.7 * (critical_loads_history + boiler_pwr) then
                 if pv_power_history < 0.7 * (critical_loads + boiler_pwr) then
                   (None, boiler_power_cmd False None d)
                 else (None, d)
               else (None, d)
           | _ \<Rightarrow> (Some TypeError, d))
        else
          (case (sens_pv_power_history r, sens_critical_loads_history r) of
             (Some pv_power_history, Some critical_loads_history) \<Rightarrow>
               if pv_power_history < 0.7 * critical_loads_history then
                 if pv_power_history < 0.7 * critical_loads then
                   (None, boiler_power_cmd False None d)
                 else (None, d)
               else (None, d)
           | _ \<Rightarrow> (Some TypeError, d))
      else
        if sens_battery_soc r < battery_top_threshold then (None, d)
        else if grid_threshold < sens_grid_power r then (None, d)
        else
          (case (sens_pv_power_history r, sens_critical_loads_history r) of
             (Some pv_power_history, Some critical_loads_history) \<Rightarrow>
               if pv_power_history < 0.75 * (critical_loads_history + boiler_pwr) then (None, d)
               else (None, boiler_power_cmd True (Some (sens_heating_temp r)) d)
           | _ \<Rightarrow> (Some TypeError, d)))"

text \<open>
  The start and stop conditions in the words of the specification (section 4.3); a
  statistic that is \<^verbatim>\<open>None\<close> satisfies no comparison.
\<close>

definition start_conditions :: "config \<Rightarrow> sensors \<Rightarrow> bool" where
  "start_conditions e r =
     (real_of_int (conf_battery_soc_top e) \<le> sens_battery_soc r
      \<and> sens_grid_power r \<le> real_of_int (conf_grid_threshold e)
      \<and> (\<exists>pv cl. sens_pv_power_history r = Some pv
            \<and> sens_critical_loads_history r = Some cl
            \<and> 0.75 * (cl + real_of_int (conf_boiler_power e)) \<le> pv))"

definition stop_conditions :: "config \<Rightarrow> sensors \<Rightarrow> bool" where
  "stop_conditions e r =
     (sens_battery_soc r < real_of_int (conf_battery_soc_bottom e)
      \<or> real_of_int (conf_grid_threshold e) < sens_grid_power r
      \<or> (sens_boiler_heating r = ''off''
          \<and> (\<exists>pv cl. sens_pv_power_history r = Some pv
                \<and> sens_critical_loads_history r = Some cl
                \<and> pv < 0.7 * (cl + real_of_int (conf_boiler_power e))
                \<and> pv < 0.7 * (sens_critical_loads r + real_of_int (conf_boiler_power e))))
      \<or> (sens_boiler_heating r \<noteq> ''off''
          \<and> (\<exists>pv cl. sens_pv_power_history r = Some pv
                \<and> sens_critical_loads_history r = Some cl
                \<and> pv < 0.7 * cl
                \<and> pv < 0.7 * sens_critical_loads r)))"

section \<open>NightPreheatScheduler\<close>

text \<open>
  What the scheduler reads from the host during one invocation of \<^verbatim>\<open>run\<close> or of a
  callback: the local time \<^verbatim>\<open>dt_util.as_local(dt_util.utcnow())\<close>, whose calendar day
  is \<^verbatim>\<open>date.today()\<close>; the morning time; the night pre-heat target
  (\<^verbatim>\<open>night_heating_temp\<close>); the boiler water temperature (\<^verbatim>\<open>boiler_temp2\<close>, as float);
  yesterday's minimum of it, a result of \<^verbatim>\<open>_get_sensor_history\<close>; the boiler
  connection state; the manager mode; the battery SOC as \<^verbatim>\<open>int\<close>; the two PV
  forecasts in Wh; the MQTT connection flag; and the readings of \<^verbatim>\<open>boiler_logic\<close>.
  The clock is read once per invocation. The values are those of reads that succeeded:
  an invocation in which \<^verbatim>\<open>float\<close> or \<^verbatim>\<open>int\<close> of a sensor state raises is not
  among the modelled ones.
\<close>

record env =
  env_now :: datetime
  env_morning_time :: int
  env_night_heating_temp :: real
  env_boiler_temp2 :: real
  env_yesterday_boiler_temp :: "real option"
  env_boiler_state :: string
  env_manager_status_select :: string
  env_battery_soc :: int
  env_pv_forecast_today :: real
  env_pv_forecast_tomorrow :: real
  env_mqtt_connected :: bool
  env_sensors :: sensors

text \<open>\<^verbatim>\<open>_end_pre_heating\<close>, manager.py lines 478-503.\<close>

definition end_pre_heating :: "hass_data \<Rightarrow> hass_data" where
  "end_pre_heating d =
     (let d1 = call_handle (night_heating_event d) d in
      if night_heating_canceled d1 then d1\<lparr>night_heating_canceled := False\<rparr>
      else (boiler_power_cmd False None d1)\<lparr>night_preheating := False\<rparr>)"

text \<open>
  The block that ends four paths of \<^verbatim>\<open>_start_night_pre_heating\<close> (manager.py lines
  336-350, 386-399, 438-448 and 459-474): when the morning time of today counts as past,
  clear the planned flag and end at once; otherwise register \<^verbatim>\<open>_end_pre_heating\<close> for
  the morning time and clear the planned flag.
\<close>

definition plan_end :: "env \<Rightarrow> hass_data \<Rightarrow> hass_data" where
  "plan_end v d =
     (let check_planned_datetime = combine (ordinal (env_now v)) (env_morning_time v) in
      if planned_to_past (env_now v) check_planned_datetime then
        end_pre_heating (d\<lparr>night_heating_planned := False\<rparr>)
      else
        (let (h, d1) = track EndPreHeating
                 (TimeChange (time_hour (env_morning_time v)) (time_minute (env_morning_time v))) d
         in d1\<lparr>night_heating_event := Some h, night_heating_planned := False\<rparr>))"

text \<open>
  The three cancelling paths (water already hot, boiler disconnected, forecast too low)
  set the cancelled flag and run that block.
\<close>

definition cancel_pre_heating :: "env \<Rightarrow> hass_data \<Rightarrow> hass_data" where
  "cancel_pre_heating v d = plan_end v (d\<lparr>night_heating_canceled := True\<rparr>)"

text \<open>
  ForecastEnergyBalancer, manager.py lines 406-435 of \<^verbatim>\<open>_start_night_pre_heating\<close>:
  the energy for the day (\<^verbatim>\<open>boiler_energy_day[0] + battery_energy\<close>) and the forecast
  it is compared with, in kWh. Line 429 passes \<^verbatim>\<open>preheat_temp\<close> as the water
  temperature and \<^verbatim>\<open>delta_temp\<close> as the temperature to heat to.
\<close>

definition automatic_required_energy :: "config \<Rightarrow> env \<Rightarrow> py_error + real" where
  "automatic_required_energy e v =
     (let heating_temp = sens_heating_temp (env_sensors v);
          temp_variation = conf_temp_variable e;
          min_boiler_temp = conf_boiler_min_temp e;
          preheat_temp = env_night_heating_temp v;
          battery_soc = real_of_int (env_battery_soc v);
          desired_batt_cap =
            real_of_int (conf_battery_capacity e) * real_of_int (conf_battery_soc_bottom e) / 100;
          min_temp = max (heating_temp - temp_variation) min_boiler_temp;
          delta_temp = max (min_temp - preheat_temp) 0
      in case calculate_boiler_heat (Some (conf_boiler_power e)) (Some (conf_boiler_volume e))
                (Some preheat_temp) (Some delta_temp) of
           Inl err \<Rightarrow> Inl err
         | Inr boiler_energy_day \<Rightarrow>
             Inr (fst boiler_energy_day + calculate_battery_energy desired_batt_cap battery_soc 80))"

definition automatic_pv_forecast :: "env \<Rightarrow> real" where
  "automatic_pv_forecast v =
     (let morning_time_check = combine (ordinal (env_now v)) (env_morning_time v) in
      if planned_to_past (env_now v) morning_time_check then env_pv_forecast_tomorrow v
      else env_pv_forecast_today v)"

text \<open>
  \<^verbatim>\<open>_start_night_pre_heating\<close>, manager.py lines 309-476. The result is the exception
  the callback ended with, if any, and the state it left.
\<close>

definition start_night_pre_heating ::
  "config \<Rightarrow> env \<Rightarrow> hass_data \<Rightarrow> py_error option \<times> hass_data" where
  "start_night_pre_heating e v d =
     (let d1 = call_handle (night_heating_event d) d;
          boiler_water_temp = env_boiler_temp2 v - 3;
          preheat_temp = env_night_heating_temp v
      in
      if preheat_temp \<le> boiler_water_temp then (None, cancel_pre_heating v d1)
      else
        (case calculate_boiler_heat (Some (conf_boiler_power e)) (Some (conf_boiler_volume e))
                (Some boiler_water_temp) (Some preheat_temp) of
           Inl err \<Rightarrow> (Some err, d1)
         | Inr boiler_heat \<Rightarrow>
            (let needed_time = snd boiler_heat;
                 time_now = env_now v;
                 morning_time2 = combine (ordinal time_now) (env_morning_time v);
                 time_left = timedelta_seconds (datetime_diff morning_time2 time_now) div 60;
                 time_difference = real_of_int time_left - needed_time
             in
             if 60 < time_difference then
               (let planned_time =
                      micro_of_day (datetime_plus time_now (timedelta_minutes time_difference));
                    (h, d2) = track StartNightPreHeating
                      (TimeChange (time_hour planned_time) (time_minute planned_time)) d1
                in (None, d2\<lparr>night_heating_event := Some h\<rparr>))
             else if env_boiler_state v = ''Disconnected'' then (None, cancel_pre_heating v d1)
             else
               (let start = plan_end v
                      (boiler_power_cmd True (Some preheat_temp) (d1\<lparr>night_preheating := True\<rparr>))
                in
                if env_manager_status_select v = ''Automatic'' then
                  (case automatic_required_energy e v of
                     Inl err \<Rightarrow> (Some err, d1)
                   | Inr required \<Rightarrow>
                       if automatic_pv_forecast v / 1000 < required
                       then (None, cancel_pre_heating v d1)
                       else (None, start))
                else (None, start)))))"

text \<open>
  \<^verbatim>\<open>_plan_start_night_pre_heating\<close>, manager.py lines 242-307. \<^verbatim>\<open>min\<close> of \<^verbatim>\<open>None\<close> and
  a float raises TypeError. An exception of the nested start leaves the calculation flag
  set.
\<close>

definition plan_start_night_pre_heating ::
  "config \<Rightarrow> env \<Rightarrow> hass_data \<Rightarrow> py_error option \<times> hass_data" where
  "plan_start_night_pre_heating e v d =
     (let d1 = call_handle (night_heating_calc_event d) d in
      case env_yesterday_boiler_temp v of
        None \<Rightarrow> (Some TypeError, d1)
      | Some yesterday_boiler_temp \<Rightarrow>
         (let calc_temp = min yesterday_boiler_temp (env_boiler_temp2 v);
              preheat_temp = env_night_heating_temp v
          in case calculate_boiler_heat (Some (conf_boiler_power e)) (Some (conf_boiler_volume e))
                    (Some calc_temp) (Some preheat_temp) of
               Inl err \<Rightarrow> (Some err, d1)
             | Inr boiler_heat \<Rightarrow>
                (let needed_time = (if fst boiler_heat = 0 then 120 else snd boiler_heat + 60);
                     datetime_now = env_now v;
                     planned_datetime =
                       datetime_minus (combine (ordinal datetime_now) (env_morning_time v))
                         (timedelta_minutes needed_time);
                     planned_time = micro_of_day planned_datetime
                 in
                 if planned_to_past datetime_now planned_datetime then
                   (case start_night_pre_heating e v (d1\<lparr>night_heating_planned := True\<rparr>) of
                      (Some err, d2) \<Rightarrow> (Some err, d2)
                    | (None, d2) \<Rightarrow> (None, d2\<lparr>night_heating_calc_planned := False\<rparr>))
                 else
                   (let (h, d2) = track StartNightPreHeating
                          (TimeChange (time_hour planned_time) (time_minute planned_time)) d1
                    in (None, d2\<lparr>night_heating_event := Some h, night_heating_planned := True,
                                 night_heating_calc_planned := False\<rparr>)))))"

text \<open>\<^verbatim>\<open>night_pre_heating\<close>, manager.py lines 184-240.\<close>

definition night_pre_heating ::
  "config \<Rightarrow> env \<Rightarrow> hass_data \<Rightarrow> py_error option \<times> hass_data" where
  "night_pre_heating e v d =
     (if night_heating_planned d \<or> night_heating_calc_planned d
         \<or> night_heating_canceled d \<or> night_preheating d then (None, d)
      else if \<not> night_heating_switch d then (None, d)
      else
        (case calculate_boiler_heat (Some (conf_boiler_power e)) (Some (conf_boiler_volume e))
                (Some 1) (Some (env_night_heating_temp v)) of
           Inl err \<Rightarrow> (Some err, d)
         | Inr max_time_to_heat \<Rightarrow>
            (let datetime_now = env_now v;
                 today = ordinal datetime_now;
                 planned_datetime1 =
                   datetime_minus (combine today (env_morning_time v))
                     (timedelta_minutes (snd max_time_to_heat));
                 planned_time = micro_of_day planned_datetime1;
                 planned_datetime2 =
                   (if planned_to_past datetime_now planned_datetime1
                    then combine (today + 1) planned_time
                    else combine today planned_time);
                 (h, d1) = track PlanStartNightPreHeating (PointInTime planned_datetime2) d
             in (None, d1\<lparr>night_heating_calc_event := Some h,
                          night_heating_calc_planned := True\<rparr>))))"

section \<open>ManagerController and the host\<close>

text \<open>\<^verbatim>\<open>run\<close>, manager.py lines 41-73: one control tick.\<close>

definition run :: "config \<Rightarrow> env \<Rightarrow> hass_data \<Rightarrow> py_error option \<times> hass_data" where
  "run e v d =
     (if env_boiler_state v = ''Disconnected'' then
        (None,
         if manager_status_sensor d \<noteq> ''Paused - Warning (Boiler Disconnected)''
         then d\<lparr>manager_status_sensor := ''Paused - Warning (Boiler Disconnected)''\<rparr>
         else d)
      else
        (let d1 = (if manager_status_sensor d = ''Paused - Warning (Boiler Disconnected)''
                   then d\<lparr>manager_status_sensor := ''Running''\<rparr> else d)
         in
         if conf_solar_conf_mode e = ''automatic'' \<and> \<not> env_mqtt_connected v then (None, d1)
         else
           (case night_pre_heating e v d1 of
              (Some err, d2) \<Rightarrow> (Some err, d2)
            | (None, d2) \<Rightarrow>
                if py_not (conf_phase e) then (None, d2)
                else if \<not> night_preheating d2 then boiler_logic e (env_sensors v) d2
                else (None, d2))))"

text \<open>
  The host between two samples: a control tick, or a pending listener fires. A listener
  registered for a point in time is dropped by the host as it fires; a daily one stays
  registered until its handle is called. The host may fire a listener at any time.
\<close>

datatype event = Tick env | Fire nat env

definition fire :: "config \<Rightarrow> nat \<Rightarrow> env \<Rightarrow> hass_data \<Rightarrow> hass_data" where
  "fire e h v d =
     (case find (\<lambda>l. fst l = h) (listeners d) of
        None \<Rightarrow> d
      | Some (_, cb, tr) \<Rightarrow>
          (let d1 = (case tr of
                       PointInTime _ \<Rightarrow> d\<lparr>listeners := filter (\<lambda>l. fst l \<noteq> h) (listeners d)\<rparr>
                     | TimeChange _ _ \<Rightarrow> d)
           in case cb of
                PlanStartNightPreHeating \<Rightarrow> snd (plan_start_night_pre_heating e v d1)
              | StartNightPreHeating \<Rightarrow> snd (start_night_pre_heating e v d1)
              | EndPreHeating \<Rightarrow> end_pre_heating d1))"

definition step :: "config \<Rightarrow> hass_data \<Rightarrow> event \<Rightarrow> hass_data" where
  "step e d ev = (case ev of Tick v \<Rightarrow> snd (run e v d) | Fire h v \<Rightarrow> fire e h v d)"

text \<open>The four scheduler states as the flags spell them.\<close>

definition flags :: "hass_data \<Rightarrow> bool list" where
  "flags d = [night_heating_calc_planned d, night_heating_planned d, night_preheating d,
              night_heating_canceled d]"

definition count_true :: "bool list \<Rightarrow> nat" where
  "count_true bs = length (filter (\<lambda>b. b) bs)"

definition idle :: "hass_data \<Rightarrow> bool" where
  "idle d = (count_true (flags d) = 0 \<and> listeners d = [])"

section \<open>The feature switch\<close>

text \<open>
  Calling an \<^verbatim>\<open>async def\<close> function without \<^verbatim>\<open>await\<close> only creates a coroutine
  object; its body never runs.
\<close>

definition not_awaited :: "(hass_data \<Rightarrow> hass_data) \<Rightarrow> hass_data \<Rightarrow> hass_data" where
  "not_awaited coroutine d = d"

text \<open>
  \<^verbatim>\<open>NightHeatingSwitch._toggle_state(value)\<close>, switch.py lines 65-92;
  \<open>boiler_heating\<close> is the hardware heating status it reads. Line 84 calls
  \<^verbatim>\<open>_boiler_power(False)\<close> without \<^verbatim>\<open>await\<close>.
\<close>

definition toggle_state :: "bool \<Rightarrow> string \<Rightarrow> hass_data \<Rightarrow> hass_data" where
  "toggle_state val boiler_heating d =
     (let d1 = d\<lparr>night_heating_switch := val\<rparr>;
          manager_status = manager_status_sensor d1
      in
      if \<not> val then
        (let d2 = (if manager_status \<noteq> ''Initializing''
                   then (let d' = call_handle (night_heating_event d1) d1
                         in call_handle (night_heating_calc_event d') d')
                   else d1);
             d3 = (if night_preheating d2 \<and> boiler_heating = ''on''
                   then not_awaited (boiler_power_cmd False None) d2 else d2)
         in d3\<lparr>night_heating_planned := False, night_heating_calc_planned := False,
                night_heating_canceled := False, night_preheating := False\<rparr>)
      else d1)"

section \<open>Shapes of the scheduler state\<close>

text \<open>
  What \<^verbatim>\<open>_start_night_pre_heating\<close> leaves behind, apart from the calculation flag:
  nothing planned and no listener; or the start re-planned, with its listener; or the
  end planned, with its listener, for a pre-heating that runs or was cancelled.
\<close>

definition after_start :: "hass_data \<Rightarrow> bool" where
  "after_start d =
     ((listeners d = [] \<and> \<not> night_heating_planned d \<and> \<not> night_heating_canceled d
        \<and> \<not> night_preheating d)
      \<or> (\<exists>h tr. listeners d = [(h, StartNightPreHeating, tr)] \<and> night_heating_event d = Some h
            \<and> night_heating_planned d \<and> \<not> night_heating_canceled d \<and> \<not> night_preheating d)
      \<or> (\<exists>h tr. listeners d = [(h, EndPreHeating, tr)] \<and> night_heating_event d = Some h
            \<and> \<not> night_heating_planned d \<and> (night_heating_canceled d \<noteq> night_preheating d)))"

text \<open>
  The states the scheduler can be sampled in: no listener and at most one flag; the
  calculation planned, with its listener; or one of the shapes above.
\<close>

definition sched_inv :: "hass_data \<Rightarrow> bool" where
  "sched_inv d =
     ((listeners d = [] \<and> count_true (flags d) \<le> 1)
      \<or> (\<exists>h tr. listeners d = [(h, PlanStartNightPreHeating, tr)]
            \<and> night_heating_calc_event d = Some h
            \<and> night_heating_calc_planned d \<and> \<not> night_heating_planned d
            \<and> \<not> night_heating_canceled d \<and> \<not> night_preheating d)
      \<or> (\<not> night_heating_calc_planned d \<and> after_start d))"

section \<open>Example installation\<close>

text \<open>
  A 2000 W, 150 l boiler with a 4800 Wh battery; the state after start-up with the
  feature switch on (\<^verbatim>\<open>__init__.py\<close> lines 57-64), and sensor readings of a sunny and
  of a dull moment.
\<close>

definition example_config :: config where
  "example_config =
     \<lparr>conf_boiler_power = 2000, conf_boiler_volume = 150, conf_battery_soc_top = 90,
      conf_battery_soc_bottom = 70, conf_grid_threshold = 100, conf_battery_capacity = 4800,
      conf_temp_variable = 5, conf_boiler_min_temp = 40, conf_solar_conf_mode = ''manual'',
      conf_phase = Some 1\<rparr>"

definition idle_state :: hass_data where
  "idle_state =
     \<lparr>night_heating_event = None, night_heating_calc_event = None,
      night_heating_planned = False, night_heating_calc_planned = False,
      night_heating_canceled = False, night_preheating = False, boiler_power_on = False,
      night_heating_switch = True, manager_status_sensor = ''Running'', listeners = [],
      next_handle = 0, service_calls = []\<rparr>"

definition sunny_sensors :: sensors where
  "sunny_sensors =
     \<lparr>sens_grid_power = 20, sens_critical_loads_history = Some 500,
      sens_pv_power_history = Some 3000, sens_critical_loads = 480, sens_battery_soc = 95,
      sens_boiler_heating = ''on'', sens_heating_temp = 60\<rparr>"

definition dull_sensors :: sensors where
  "dull_sensors = sunny_sensors\<lparr>sens_pv_power_history := Some 300\<rparr>"

text \<open>
  One night: a tick at 20:00 plans the calculation for 01:43:36.6; the calculation plans
  the start for 03:15; at 03:15 the start is moved to 04:15, or, with the water already
  hot, cancelled; at 04:15 pre-heating starts, to end at the morning time 06:00.
\<close>

definition evening_env :: env where
  "evening_env =
     \<lparr>env_now = \<lparr>ordinal = 738000, micro_of_day = 72000000000\<rparr>,
      env_morning_time = 21600000000, env_night_heating_temp = 50, env_boiler_temp2 = 35,
      env_yesterday_boiler_temp = Some 30, env_boiler_state = ''Connected'',
      env_manager_status_select = ''Manual'', env_battery_soc = 50,
      env_pv_forecast_today = 1500, env_pv_forecast_tomorrow = 1500,
      env_mqtt_connected = True, env_sensors = dull_sensors\<rparr>"

definition night_env :: env where
  "night_env = evening_env\<lparr>env_now := \<lparr>ordinal = 738001, micro_of_day = 6216600000\<rparr>\<rparr>"

definition hot_env :: env where
  "hot_env = evening_env\<lparr>env_now := \<lparr>ordinal = 738001, micro_of_day = 11700000000\<rparr>,
                         env_boiler_temp2 := 55\<rparr>"

definition cold_env :: env where
  "cold_env = evening_env\<lparr>env_now := \<lparr>ordinal = 738001, micro_of_day = 11700000000\<rparr>,
                          env_boiler_temp2 := 33\<rparr>"

definition start_env :: env where
  "start_env = evening_env\<lparr>env_now := \<lparr>ordinal = 738001, micro_of_day = 15300000000\<rparr>,
                           env_boiler_temp2 := 33\<rparr>"

definition automatic_env :: env where
  "automatic_env = start_env\<lparr>env_manager_status_select := ''Automatic''\<rparr>"

definition calc_planned_state :: hass_data where
  "calc_planned_state =
     idle_state\<lparr>night_heating_calc_event := Some 0, night_heating_calc_planned := True,
       listeners := [(0, PlanStartNightPreHeating,
                      PointInTime \<lparr>ordinal = 738001, micro_of_day = 6216600000\<rparr>)],
       next_handle := 1\<rparr>"

definition start_planned_state :: hass_data where
  "start_planned_state =
     idle_state\<lparr>night_heating_event := Some 1, night_heating_calc_event := Some 0,
       night_heating_planned := True,
       listeners := [(1, StartNightPreHeating, TimeChange 3 15)], next_handle := 2\<rparr>"

definition cancelled_state :: hass_data where
  "cancelled_state =
     idle_state\<lparr>night_heating_event := Some 2, night_heating_calc_event := Some 0,
       night_heating_canceled := True,
       listeners := [(2, EndPreHeating, TimeChange 6 0)], next_handle := 3\<rparr>"

definition start_replanned_state :: hass_data where
  "start_replanned_state =
     idle_state\<lparr>night_heating_event := Some 2, night_heating_calc_event := Some 0,
       night_heating_planned := True,
       listeners := [(2, StartNightPreHeating, TimeChange 4 15)], next_handle := 3\<rparr>"

definition preheat_active_state :: hass_data where
  "preheat_active_state =
     idle_state\<lparr>night_heating_event := Some 3, night_heating_calc_event := Some 0,
       night_preheating := True, boiler_power_on := True,
       listeners := [(3, EndPreHeating, TimeChange 6 0)], next_handle := 4,
       service_calls := [SetTemperature (Some 50), SelectOption ''MANUAL'']\<rparr>"

section \<open>Properties of the thermal model\<close>

text \<open>
  C7. \<open>calculate_boiler_heat\<close> returns \<open>(0, 0)\<close>, and does not raise, whenever the
  volume is zero or unset, or the power is zero or unset, or both temperatures are
  numbers and the temperature delta (target minus current) is at most zero.
\<close>

theorem calculate_boiler_heat_degenerate:
  assumes "boiler_volume = None \<or> boiler_volume = Some 0
           \<or> boiler_power = None \<or> boiler_power = Some 0
           \<or> (\<exists>w t. water_temp = Some w \<and> temp_to_heat = Some t \<and> t - w \<le> 0)"
  shows "calculate_boiler_heat boiler_power boiler_volume water_temp temp_to_heat = Inr (0, 0)"
  using assms
  by (auto simp: calculate_boiler_heat_def py_not_def split: option.splits)

theorem calculate_boiler_heat_degenerate_witness:
  "calculate_boiler_heat (Some 2000) (Some 150) (Some 60) (Some 50) = Inr (0, 0)
   \<and> calculate_boiler_heat None (Some 150) None (Some 50) = Inr (0, 0)
   \<and> calculate_boiler_heat (Some 2000) (Some 0) (Some 40) None = Inr (0, 0)"
proof -
  have h1: "Some (150::int) = None \<or> Some (150::int) = Some 0
            \<or> Some (2000::int) = None \<or> Some (2000::int) = Some 0
            \<or> (\<exists>w t. Some (60::real) = Some w \<and> Some (50::real) = Some t \<and> t - w \<le> 0)"
    by simp
  have h2: "Some (150::int) = None \<or> Some (150::int) = Some 0
            \<or> (None::int option) = None \<or> (None::int option) = Some 0
            \<or> (\<exists>w t. (None::real option) = Some w \<and> Some (50::real) = Some t \<and> t - w \<le> 0)"
    by simp
  have h3: "Some (0::int) = None \<or> Some (0::int) = Some 0
            \<or> Some (2000::int) = None \<or> Some (2000::int) = Some 0
            \<or> (\<exists>w t. Some (40::real) = Some w \<and> (None::real option) = Some t \<and> t - w \<le> 0)"
    by simp
  show ?thesis
    using calculate_boiler_heat_degenerate [OF h1] calculate_boiler_heat_degenerate [OF h2]
      calculate_boiler_heat_degenerate [OF h3]
    by simp
qed

text \<open>
  C8 (as stated, refuted). For volume 150 L, power 2000 W, water at 40 and target 75 the
  source formula gives 4.186 * 150 * 35 / 3600 = 6.10 kWh and 183.14 minutes; neither
  figure is within one unit of the stated 3.14 kWh and 94.2 minutes.
\<close>

theorem calculate_boiler_heat_example_counterexample:
  "\<not> (case calculate_boiler_heat (Some 2000) (Some 150) (Some 40) (Some 75) of
        Inl e \<Rightarrow> False
      | Inr r \<Rightarrow> \<bar>fst r - 3.14\<bar> \<le> 1 \<and> \<bar>snd r - 94.2\<bar> \<le> 1)"
  by (simp add: calculate_boiler_heat_def py_not_def py_round2_def py_round_def Let_def)

text \<open>
  C8 (amended). For volume 150 L, power 2000 W, water at 40 and target 75,
  \<open>calculate_boiler_heat\<close> returns 6.1 kWh of thermal energy and 183.14 minutes.
\<close>

theorem calculate_boiler_heat_example:
  "calculate_boiler_heat (Some 2000) (Some 150) (Some 40) (Some 75) = Inr (6.1, 183.14)"
  by (simp add: calculate_boiler_heat_def py_not_def py_round2_def py_round_def Let_def)

section \<open>Properties of the sensor aggregator\<close>

lemmas parse_defs =
  py_float_def float_mantissa_def float_exponent_def digitpart_def is_float_def
  is_space_def is_decimal_def digit_value_def py_isdigit_def Let_def

text \<open>
  The comprehension raises exactly when the window holds a state that \<^verbatim>\<open>isdigit\<close>
  accepts and \<^verbatim>\<open>float\<close> rejects; otherwise it yields the values of the states that
  parse, in order.
\<close>

lemma numeric_states_eq:
  "numeric_states states =
     (if \<exists>s\<in>set states. py_isdigit s \<and> py_float s = None then Inl ValueError
      else Inr (List.map_filter py_float states))"
  by (induction states) (auto simp: is_float_def split: option.splits)

lemma get_sensor_history_eq:
  "get_sensor_history (Some states) min_val percentile =
     (if \<exists>s\<in>set states. py_isdigit s \<and> py_float s = None then Inl ValueError
      else if List.map_filter py_float states = [] then Inr None
      else if py_truthy percentile then
        (case np_percentile (List.map_filter py_float states) (the percentile) of
           Inl err \<Rightarrow> Inl err
         | Inr percentile_value \<Rightarrow> Inr (Some (py_round2 percentile_value)))
      else if min_val then Inr (Some (py_round2 (Min (set (List.map_filter py_float states)))))
      else Inr (Some (py_round2 (sum_list (List.map_filter py_float states)
                                 / of_nat (length (List.map_filter py_float states))))))"
  by (cases states) (auto simp: get_sensor_history_def numeric_states_eq)

text \<open>
  C9 (the code at the failing input). The window holds the single state superscript two
  (code point 178): \<^verbatim>\<open>isdigit\<close> accepts it, \<^verbatim>\<open>float\<close> raises ValueError on it, and
  so does the query, which the claim has return \<^verbatim>\<open>None\<close> without raising. The same
  happens next to numeric samples, whatever statistic is requested.
\<close>

theorem get_sensor_history_superscript_digit:
  "py_isdigit [CHR 0xB2] \<and> py_float [CHR 0xB2] = None
   \<and> get_sensor_history (Some [[CHR 0xB2]]) False None = Inl ValueError
   \<and> get_sensor_history (Some [''21.5'', [CHR 0xB2], ''22'']) False (Some 50) = Inl ValueError"
  by (simp add: get_sensor_history_def parse_defs)

text \<open>
  Apart from such states the query does what C9 says: no sample or no numeric sample
  gives \<^verbatim>\<open>None\<close>; otherwise a percentile request (1 to 100) gives that percentile of
  the numeric samples, a minimum request their minimum and a plain request their mean,
  each rounded to 2 decimals.
\<close>

lemma get_sensor_history_statistic:
  assumes "\<forall>s\<in>set states. py_isdigit s \<longrightarrow> py_float s \<noteq> None"
  shows "get_sensor_history None min_val percentile = Inr None
   \<and> (List.map_filter py_float states = [] \<longrightarrow>
        get_sensor_history (Some states) min_val percentile = Inr None)
   \<and> (List.map_filter py_float states \<noteq> [] \<longrightarrow>
        (\<forall>p. percentile = Some p \<and> 1 \<le> p \<and> p \<le> 100 \<longrightarrow>
           get_sensor_history (Some states) min_val percentile
             = Inr (Some (py_round2 (linear_percentile (List.map_filter py_float states) p))))
        \<and> (percentile = None \<and> min_val \<longrightarrow>
             get_sensor_history (Some states) min_val percentile
               = Inr (Some (py_round2 (Min (set (List.map_filter py_float states))))))
        \<and> (percentile = None \<and> \<not> min_val \<longrightarrow>
             get_sensor_history (Some states) min_val percentile
               = Inr (Some (py_round2 (sum_list (List.map_filter py_float states)
                                        / of_nat (length (List.map_filter py_float states)))))))"
proof -
  have ok: "\<not> (\<exists>s\<in>set states. py_isdigit s \<and> py_float s = None)"
    using assms by blast
  have none: "get_sensor_history None min_val percentile = Inr None"
    by (simp add: get_sensor_history_def)
  have some: "get_sensor_history (Some states) min_val percentile =
     (if List.map_filter py_float states = [] then Inr None
      else if py_truthy percentile then
        (case np_percentile (List.map_filter py_float states) (the percentile) of
           Inl err \<Rightarrow> Inl err
         | Inr percentile_value \<Rightarrow> Inr (Some (py_round2 percentile_value)))
      else if min_val then Inr (Some (py_round2 (Min (set (List.map_filter py_float states)))))
      else Inr (Some (py_round2 (sum_list (List.map_filter py_float states)
                                 / of_nat (length (List.map_filter py_float states))))))"
    using ok by (simp only: get_sensor_history_eq if_False)
  show ?thesis
    unfolding some using none
    by (auto simp: py_truthy_def np_percentile_def)
qed

lemma get_sensor_history_statistic_example:
  "get_sensor_history (Some [''unavailable'', ''unknown'']) False (Some 50) = Inr None
   \<and> get_sensor_history (Some [''3'', ''unknown'', ''1.234'', ''2'']) True None
       = Inr (Some 1.23)
   \<and> get_sensor_history (Some [''3'', ''unknown'', ''1.234'', ''2'']) False None
       = Inr (Some 2.08)
   \<and> get_sensor_history (Some [''3'', ''unknown'', ''1.234'', ''2'']) False (Some 70)
       = Inr (Some 2.4)"
  by (simp add: get_sensor_history_eq parse_defs py_truthy_def
      np_percentile_def linear_percentile_def py_round2_def py_round_def)



section \<open>Properties of the planning guard\<close>

text \<open>
  C6 (as stated, refuted). With the clock at 12:00:00, a candidate at 11:00:00 of the
  next day, 23 hours in the future, is reported as past; with the clock at 20:00:00, a
  candidate at 21:44:00 of the day before, 22 hours back, is not. Only the times of day
  are compared.
\<close>

theorem planned_to_past_counterexample:
  "planned_to_past \<lparr>ordinal = 738000, micro_of_day = 43200000000\<rparr>
                   \<lparr>ordinal = 738001, micro_of_day = 39600000000\<rparr>
   \<and> datetime_diff \<lparr>ordinal = 738001, micro_of_day = 39600000000\<rparr>
                     \<lparr>ordinal = 738000, micro_of_day = 43200000000\<rparr> = 82800000000
   \<and> \<not> planned_to_past \<lparr>ordinal = 738000, micro_of_day = 72000000000\<rparr>
                       \<lparr>ordinal = 737999, micro_of_day = 78240000000\<rparr>
   \<and> datetime_diff \<lparr>ordinal = 737999, micro_of_day = 78240000000\<rparr>
                     \<lparr>ordinal = 738000, micro_of_day = 72000000000\<rparr> = - 80160000000"
  by (simp add: planned_to_past_def timedelta_seconds_def datetime_diff_def to_micros_def
      day_micros_def Let_def)

lemma timedelta_seconds_behind:
  assumes "300000000 < x" "x \<le> 86100000000"
  shows "300 \<le> timedelta_seconds (k * day_micros - x)"
proof -
  define q where "q = (- x) div 1000000"
  have "(k * day_micros - x) div 1000000 = k * 86400 + q"
    by (simp add: day_micros_def q_def)
  then have s: "timedelta_seconds (k * day_micros - x) = q mod 86400"
    by (simp add: timedelta_seconds_def)
  have "(- 86100000000) div 1000000 \<le> q"
    unfolding q_def using assms(2) by (intro zdiv_mono1) simp_all
  then have lo: "- 86100 \<le> q"
    by simp
  have "q \<le> (- 300000001) div (1000000::int)"
    unfolding q_def using assms(1) by (intro zdiv_mono1) simp_all
  then have hi: "q \<le> - 301"
    by simp
  have "q mod 86400 = (q + 86400) mod 86400"
    by simp
  also have "\<dots> = q + 86400"
    using lo hi by (intro mod_pos_pos_trivial) simp_all
  finally show ?thesis
    using lo s by simp
qed

text \<open>
  C6 (amended). \<open>planned_to_past\<close> compares times of day, whatever the dates: it
  returns true whenever the candidate's time of day is at or before the current time of
  day, and false whenever the candidate's time of day is later than the current one by
  more than 5 minutes and by at most 23 hours 55 minutes.
\<close>

theorem planned_to_past_time_of_day:
  "(micro_of_day planned_datetime \<le> micro_of_day datetime_now \<longrightarrow>
      planned_to_past datetime_now planned_datetime)
   \<and> (300000000 < micro_of_day planned_datetime - micro_of_day datetime_now
        \<and> micro_of_day planned_datetime - micro_of_day datetime_now \<le> 86100000000 \<longrightarrow>
        \<not> planned_to_past datetime_now planned_datetime)"
proof -
  have d: "datetime_diff datetime_now planned_datetime
      = (ordinal datetime_now - ordinal planned_datetime) * day_micros
        - (micro_of_day planned_datetime - micro_of_day datetime_now)"
    by (simp add: datetime_diff_def to_micros_def algebra_simps)
  show ?thesis
    using timedelta_seconds_behind
      [of "micro_of_day planned_datetime - micro_of_day datetime_now"
        "ordinal datetime_now - ordinal planned_datetime"]
    by (auto simp: planned_to_past_def Let_def d)
qed

theorem planned_to_past_time_of_day_witness:
  "micro_of_day \<lparr>ordinal = 738001, micro_of_day = 39600000000\<rparr>
     \<le> micro_of_day \<lparr>ordinal = 738000, micro_of_day = 43200000000\<rparr>
   \<and> planned_to_past \<lparr>ordinal = 738000, micro_of_day = 43200000000\<rparr>
                     \<lparr>ordinal = 738001, micro_of_day = 39600000000\<rparr>
   \<and> 300000000 < micro_of_day \<lparr>ordinal = 738000, micro_of_day = 43800000000\<rparr>
                   - micro_of_day \<lparr>ordinal = 738000, micro_of_day = 43200000000\<rparr>
   \<and> \<not> planned_to_past \<lparr>ordinal = 738000, micro_of_day = 43200000000\<rparr>
                       \<lparr>ordinal = 738000, micro_of_day = 43800000000\<rparr>"
  using planned_to_past_time_of_day
      [of "\<lparr>ordinal = 738001, micro_of_day = 39600000000\<rparr>"
          "\<lparr>ordinal = 738000, micro_of_day = 43200000000\<rparr>"]
    planned_to_past_time_of_day
      [of "\<lparr>ordinal = 738000, micro_of_day = 43800000000\<rparr>"
          "\<lparr>ordinal = 738000, micro_of_day = 43200000000\<rparr>"]
  by simp

text \<open>
  The guard band itself: with the clock at 12:00:00, a candidate at 12:03:00 of the same
  day, three minutes ahead, is not reported as past, against the docstring of
  \<^verbatim>\<open>_planned_to_past\<close>. The difference now minus candidate is negative, and its
  \<^verbatim>\<open>.seconds\<close> is 86220, not 180.
\<close>

lemma planned_to_past_guard_band_evaluation:
  "planned_to_past \<lparr>ordinal = 738000, micro_of_day = 43200000000\<rparr>
                   \<lparr>ordinal = 738000, micro_of_day = 43380000000\<rparr> = False
   \<and> timedelta_seconds (datetime_diff \<lparr>ordinal = 738000, micro_of_day = 43200000000\<rparr>
                                        \<lparr>ordinal = 738000, micro_of_day = 43380000000\<rparr>) = 86220"
  by (simp add: planned_to_past_def timedelta_seconds_def datetime_diff_def to_micros_def
      day_micros_def Let_def)

section \<open>Properties of the hysteresis controller\<close>

lemma commands_issued_same [simp]: "commands_issued d d = []"
  by (simp add: commands_issued_def)

lemma commands_issued_boiler_power_cmd [simp]:
  "commands_issued d (boiler_power_cmd pwr temp d) =
     (if pwr then [SetTemperature temp, SelectOption ''MANUAL'']
      else [SelectOption ''ANTIFREEZE''])"
  by (simp add: commands_issued_def boiler_power_cmd_def)

text \<open>
  C1. In a tick that finds the commanded-on flag false, the controller commands the
  boiler on with the day heating target temperature (set temperature, then mode MANUAL)
  if and only if battery SOC is at least the top threshold, grid power is at most the
  grid threshold and the PV statistic is at least 0.75 times (critical-load statistic
  plus boiler power). When any of the three fails, no service call is made and both the
  state and the flag stay as they were.
\<close>

theorem boiler_logic_off_to_on:
  assumes "\<not> boiler_power_on d"
  shows "((commands_issued d (snd (boiler_logic e r d))
             = [SetTemperature (Some (sens_heating_temp r)), SelectOption ''MANUAL'']
           \<and> boiler_power_on (snd (boiler_logic e r d)))
          = start_conditions e r)
         \<and> (\<not> start_conditions e r \<longrightarrow>
               commands_issued d (snd (boiler_logic e r d)) = []
               \<and> snd (boiler_logic e r d) = d)"
  using assms
  by (auto simp: boiler_logic_def start_conditions_def Let_def boiler_power_cmd_def
      commands_issued_def split: option.splits)

theorem boiler_logic_off_to_on_witness:
  "\<not> boiler_power_on idle_state
   \<and> start_conditions example_config sunny_sensors
   \<and> commands_issued idle_state (snd (boiler_logic example_config sunny_sensors idle_state))
       = [SetTemperature (Some 60), SelectOption ''MANUAL'']
   \<and> \<not> start_conditions example_config dull_sensors
   \<and> snd (boiler_logic example_config dull_sensors idle_state) = idle_state"
proof -
  have off: "\<not> boiler_power_on idle_state"
    by (simp add: idle_state_def)
  have sunny: "start_conditions example_config sunny_sensors"
    by (simp add: start_conditions_def example_config_def sunny_sensors_def)
  have dull: "\<not> start_conditions example_config dull_sensors"
    by (simp add: start_conditions_def example_config_def sunny_sensors_def dull_sensors_def)
  have t: "sens_heating_temp sunny_sensors = 60"
    by (simp add: sunny_sensors_def)
  from boiler_logic_off_to_on [OF off, of example_config sunny_sensors]
    boiler_logic_off_to_on [OF off, of example_config dull_sensors]
  show ?thesis
    using off sunny dull t by simp
qed

text \<open>
  C2. In a tick that finds the commanded-on flag true, the controller commands the
  boiler off (mode ANTIFREEZE) if and only if battery SOC is below the bottom threshold,
  or grid power exceeds the grid threshold, or the hardware heating status is \<^verbatim>\<open>off\<close>
  and the PV statistic is below 0.7 times (critical-load statistic plus boiler power)
  and below 0.7 times (instantaneous critical load plus boiler power), or the status is
  not \<^verbatim>\<open>off\<close> and the PV statistic is below 0.7 times the critical-load statistic and
  below 0.7 times the instantaneous critical load. Otherwise no service call is made.
\<close>

theorem boiler_logic_on_to_off:
  assumes "boiler_power_on d"
  shows "((commands_issued d (snd (boiler_logic e r d)) = [SelectOption ''ANTIFREEZE'']
           \<and> \<not> boiler_power_on (snd (boiler_logic e r d)))
          = stop_conditions e r)
         \<and> (\<not> stop_conditions e r \<longrightarrow>
               commands_issued d (snd (boiler_logic e r d)) = []
               \<and> snd (boiler_logic e r d) = d)"
proof (cases "sens_boiler_heating r = ''off''")
  case True
  with assms show ?thesis
    by (auto simp: boiler_logic_def stop_conditions_def Let_def boiler_power_cmd_def
        commands_issued_def split: option.splits)
next
  case False
  with assms show ?thesis
    by (auto simp: boiler_logic_def stop_conditions_def Let_def boiler_power_cmd_def
        commands_issued_def split: option.splits)
qed

theorem boiler_logic_on_to_off_witness:
  "boiler_power_on (idle_state\<lparr>boiler_power_on := True\<rparr>)
   \<and> stop_conditions example_config dull_sensors
   \<and> commands_issued (idle_state\<lparr>boiler_power_on := True\<rparr>)
        (snd (boiler_logic example_config dull_sensors (idle_state\<lparr>boiler_power_on := True\<rparr>)))
       = [SelectOption ''ANTIFREEZE'']
   \<and> \<not> stop_conditions example_config sunny_sensors
   \<and> snd (boiler_logic example_config sunny_sensors (idle_state\<lparr>boiler_power_on := True\<rparr>))
       = idle_state\<lparr>boiler_power_on := True\<rparr>"
proof -
  have on: "boiler_power_on (idle_state\<lparr>boiler_power_on := True\<rparr>)"
    by simp
  have dull: "stop_conditions example_config dull_sensors"
    by (simp add: stop_conditions_def example_config_def sunny_sensors_def dull_sensors_def)
  have sunny: "\<not> stop_conditions example_config sunny_sensors"
    by (simp add: stop_conditions_def example_config_def sunny_sensors_def)
  from boiler_logic_on_to_off [OF on, of example_config dull_sensors]
    boiler_logic_on_to_off [OF on, of example_config sunny_sensors]
  show ?thesis
    using on dull sunny by simp
qed

section \<open>Properties of the scheduler\<close>

lemma calculate_boiler_heat_total [simp]:
  "calculate_boiler_heat (Some p) (Some vol) (Some w) (Some t) \<noteq> Inl err"
  by (simp add: calculate_boiler_heat_def Let_def)

lemma automatic_required_energy_total [simp]: "automatic_required_energy e v \<noteq> Inl err"
  by (simp add: automatic_required_energy_def Let_def split: sum.splits)

lemma end_pre_heating_empty:
  assumes "listeners d = []"
  shows "listeners (end_pre_heating d) = []"
    and "night_heating_planned (end_pre_heating d) = night_heating_planned d"
    and "night_heating_calc_planned (end_pre_heating d) = night_heating_calc_planned d"
    and "night_heating_canceled (end_pre_heating d) = False"
    and "night_preheating (end_pre_heating d) = (night_heating_canceled d \<and> night_preheating d)"
  using assms
  by (auto simp: end_pre_heating_def call_handle_def boiler_power_cmd_def Let_def split: option.splits)

lemma plan_end_empty:
  assumes "listeners d = []" "night_heating_canceled d \<noteq> night_preheating d"
  shows "after_start (plan_end v d)"
    and "night_heating_calc_planned (plan_end v d) = night_heating_calc_planned d"
  using assms
  by (auto simp: plan_end_def after_start_def track_def end_pre_heating_empty Let_def)

lemma cancel_pre_heating_empty:
  assumes "listeners d = []" "\<not> night_preheating d"
  shows "after_start (cancel_pre_heating v d)"
    and "night_heating_calc_planned (cancel_pre_heating v d) = night_heating_calc_planned d"
  using assms plan_end_empty [of "d\<lparr>night_heating_canceled := True\<rparr>" v]
  by (simp_all add: cancel_pre_heating_def)

lemma start_night_pre_heating_empty:
  assumes "listeners (call_handle (night_heating_event d) d) = []"
    and "night_heating_planned d" "\<not> night_heating_canceled d" "\<not> night_preheating d"
  shows "fst (start_night_pre_heating e v d) = None"
    and "after_start (snd (start_night_pre_heating e v d))"
    and "night_heating_calc_planned (snd (start_night_pre_heating e v d))
           = night_heating_calc_planned d"
proof -
  define d1 where "d1 = call_handle (night_heating_event d) d"
  have d1: "listeners d1 = []" "night_heating_planned d1" "\<not> night_heating_canceled d1"
    "\<not> night_preheating d1" "night_heating_calc_planned d1 = night_heating_calc_planned d"
    using assms by (auto simp: d1_def call_handle_def split: option.splits)
  have c: "after_start (cancel_pre_heating v d1)"
    "night_heating_calc_planned (cancel_pre_heating v d1) = night_heating_calc_planned d"
    using cancel_pre_heating_empty [of d1 v] d1 by simp_all
  define s where "s = plan_end v (boiler_power_cmd True (Some (env_night_heating_temp v))
                      (d1\<lparr>night_preheating := True\<rparr>))"
  have s: "after_start s" "night_heating_calc_planned s = night_heating_calc_planned d"
    using plan_end_empty [of "boiler_power_cmd True (Some (env_night_heating_temp v))
                      (d1\<lparr>night_preheating := True\<rparr>)" v] d1
    by (simp_all add: s_def boiler_power_cmd_def)
  have r: "\<And>tr. after_start ((snd (track StartNightPreHeating tr d1))
              \<lparr>night_heating_event := Some (fst (track StartNightPreHeating tr d1))\<rparr>)"
    using d1 by (simp add: track_def after_start_def)
  show "fst (start_night_pre_heating e v d) = None"
    by (simp add: start_night_pre_heating_def Let_def split_beta split: sum.splits)
  show "after_start (snd (start_night_pre_heating e v d))"
    using c s r
    by (simp add: start_night_pre_heating_def Let_def d1_def [symmetric] s_def [symmetric]
        split_beta split: sum.splits)
  show "night_heating_calc_planned (snd (start_night_pre_heating e v d))
           = night_heating_calc_planned d"
    using c s d1
    by (simp add: start_night_pre_heating_def Let_def d1_def [symmetric] s_def [symmetric]
        track_def split_beta split: sum.splits)
qed

lemma count_true_flags:
  "count_true (flags d) =
     of_bool (night_heating_calc_planned d) + of_bool (night_heating_planned d)
     + of_bool (night_preheating d) + of_bool (night_heating_canceled d)"
  by (simp add: count_true_def flags_def)

lemma sched_inv_count: "sched_inv d \<Longrightarrow> count_true (flags d) \<le> 1"
  by (auto simp: sched_inv_def after_start_def count_true_flags)

lemma idle_sched_inv: "idle d \<Longrightarrow> sched_inv d"
  by (simp add: idle_def sched_inv_def count_true_flags)

lemma sched_inv_actuator [simp]:
  "sched_inv (d\<lparr>boiler_power_on := b, service_calls := cs\<rparr>) = sched_inv d"
  "sched_inv (d\<lparr>manager_status_sensor := st\<rparr>) = sched_inv d"
  by (simp_all add: sched_inv_def after_start_def count_true_flags)

lemma boiler_logic_frame:
  "\<exists>b cs. snd (boiler_logic e r d) = d\<lparr>boiler_power_on := b, service_calls := cs\<rparr>"
proof -
  have same: "d = d\<lparr>boiler_power_on := boiler_power_on d, service_calls := service_calls d\<rparr>"
    by simp
  have cmd: "\<And>p t. boiler_power_cmd p t d
      = d\<lparr>boiler_power_on := boiler_power_on (boiler_power_cmd p t d),
           service_calls := service_calls (boiler_power_cmd p t d)\<rparr>"
    by (simp add: boiler_power_cmd_def)
  show ?thesis
    unfolding boiler_logic_def Let_def
    by (auto split: option.splits intro: same cmd)
qed

lemma boiler_logic_sched_inv: "sched_inv (snd (boiler_logic e r d)) = sched_inv d"
proof -
  obtain b cs where "snd (boiler_logic e r d) = d\<lparr>boiler_power_on := b, service_calls := cs\<rparr>"
    using boiler_logic_frame by blast
  then show ?thesis by simp
qed

lemma night_pre_heating_sched_inv:
  assumes "sched_inv d"
  shows "sched_inv (snd (night_pre_heating e v d))"
proof (cases "count_true (flags d) = 0 \<and> night_heating_switch d")
  case True
  then have f: "\<not> night_heating_planned d" "\<not> night_heating_calc_planned d"
    "\<not> night_heating_canceled d" "\<not> night_preheating d" "night_heating_switch d"
    by (auto simp: count_true_flags split: if_splits)
  with assms have l: "listeners d = []"
    by (auto simp: sched_inv_def after_start_def)
  show ?thesis
    using f l
    by (simp add: night_pre_heating_def Let_def split_beta track_def sched_inv_def
        count_true_flags split: sum.splits)
next
  case False
  then have "snd (night_pre_heating e v d) = d"
    by (auto simp: night_pre_heating_def count_true_flags)
  with assms show ?thesis by simp
qed

lemma run_sched_inv:
  assumes "sched_inv d"
  shows "sched_inv (snd (run e v d))"
proof -
  define d1 where "d1 = (if manager_status_sensor d = ''Paused - Warning (Boiler Disconnected)''
                         then d\<lparr>manager_status_sensor := ''Running''\<rparr> else d)"
  have d1: "sched_inv d1"
    using assms by (simp add: d1_def)
  obtain err d2 where n: "night_pre_heating e v d1 = (err, d2)"
    by (cases "night_pre_heating e v d1")
  have d2: "sched_inv d2"
    using night_pre_heating_sched_inv [OF d1, of e v] n by simp
  show ?thesis
    using assms d1 d2
    by (simp add: run_def Let_def d1_def [symmetric] n boiler_logic_sched_inv
        split: option.splits)
qed

lemma plan_start_night_pre_heating_sched_inv:
  assumes "listeners (call_handle (night_heating_calc_event d) d) = []"
    and "night_heating_calc_planned d" "\<not> night_heating_planned d"
    and "\<not> night_heating_canceled d" "\<not> night_preheating d"
  shows "sched_inv (snd (plan_start_night_pre_heating e v d))"
proof -
  define d1 where "d1 = call_handle (night_heating_calc_event d) d"
  have d1: "listeners d1 = []" "night_heating_calc_planned d1" "\<not> night_heating_planned d1"
    "\<not> night_heating_canceled d1" "\<not> night_preheating d1"
    using assms by (auto simp: d1_def call_handle_def split: option.splits)
  have raised: "sched_inv d1"
    using d1 by (simp add: sched_inv_def count_true_flags)
  define p where "p = d1\<lparr>night_heating_planned := True\<rparr>"
  have p: "listeners (call_handle (night_heating_event p) p) = []" "night_heating_planned p"
    "\<not> night_heating_canceled p" "\<not> night_preheating p"
    using d1 by (auto simp: p_def call_handle_def split: option.splits)
  obtain err d2 where st: "start_night_pre_heating e v p = (err, d2)"
    by (cases "start_night_pre_heating e v p")
  have "err = None" "after_start d2"
    using start_night_pre_heating_empty(1,2) [OF p, of e v] st by simp_all
  then have started: "err = None" "sched_inv (d2\<lparr>night_heating_calc_planned := False\<rparr>)"
    by (auto simp: sched_inv_def after_start_def)
  have planned: "\<And>tr. sched_inv ((snd (track StartNightPreHeating tr d1))
       \<lparr>night_heating_event := Some (fst (track StartNightPreHeating tr d1)),
         night_heating_planned := True, night_heating_calc_planned := False\<rparr>)"
    using d1 by (simp add: track_def sched_inv_def after_start_def)
  show ?thesis
    using raised started planned
    by (simp add: plan_start_night_pre_heating_def Let_def d1_def [symmetric]
        p_def [symmetric] st split_beta split: option.splits sum.splits)
qed

lemma end_pre_heating_sched_inv:
  assumes "listeners (call_handle (night_heating_event d) d) = []"
    and "\<not> night_heating_calc_planned d" "\<not> night_heating_planned d"
    and "night_heating_canceled d \<noteq> night_preheating d"
  shows "sched_inv (end_pre_heating d)"
  using assms
  by (auto simp: end_pre_heating_def Let_def call_handle_def boiler_power_cmd_def
      sched_inv_def count_true_flags split: option.splits)

lemma fire_sched_inv:
  assumes "sched_inv d"
  shows "sched_inv (fire e h v d)"
proof (cases "find (\<lambda>l. fst l = h) (listeners d)")
  case None
  with assms show ?thesis by (simp add: fire_def)
next
  case (Some l)
  obtain h' cb tr where l: "l = (h', cb, tr)"
    by (cases l)
  from Some l have "listeners d \<noteq> []" by auto
  with assms Some l have single: "listeners d = [(h, cb, tr)]"
    by (auto simp: sched_inv_def after_start_def split: if_splits)
  define d1 where "d1 = (case tr of
                       PointInTime _ \<Rightarrow> d\<lparr>listeners := filter (\<lambda>l. fst l \<noteq> h) (listeners d)\<rparr>
                     | TimeChange _ _ \<Rightarrow> d)"
  have d1: "listeners d1 = [] \<or> listeners d1 = [(h, cb, tr)]"
    "night_heating_calc_event d1 = night_heating_calc_event d"
    "night_heating_event d1 = night_heating_event d"
    "night_heating_calc_planned d1 = night_heating_calc_planned d"
    "night_heating_planned d1 = night_heating_planned d"
    "night_heating_canceled d1 = night_heating_canceled d"
    "night_preheating d1 = night_preheating d"
    using single by (auto simp: d1_def split: trigger.splits)
  show ?thesis
  proof (cases cb)
    case PlanStartNightPreHeating
    with assms single have "night_heating_calc_event d = Some h" "night_heating_calc_planned d"
      "\<not> night_heating_planned d" "\<not> night_heating_canceled d" "\<not> night_preheating d"
      by (auto simp: sched_inv_def after_start_def)
    with d1 have "sched_inv (snd (plan_start_night_pre_heating e v d1))"
      by (intro plan_start_night_pre_heating_sched_inv) (auto simp: call_handle_def)
    moreover have "fire e h v d = snd (plan_start_night_pre_heating e v d1)"
      using Some l PlanStartNightPreHeating by (simp add: fire_def d1_def Let_def)
    ultimately show ?thesis by simp
  next
    case StartNightPreHeating
    with assms single have "night_heating_event d = Some h" "\<not> night_heating_calc_planned d"
      "night_heating_planned d" "\<not> night_heating_canceled d" "\<not> night_preheating d"
      by (auto simp: sched_inv_def after_start_def)
    with d1 have p: "listeners (call_handle (night_heating_event d1) d1) = []"
      "night_heating_planned d1" "\<not> night_heating_canceled d1" "\<not> night_preheating d1"
      "\<not> night_heating_calc_planned d1"
      by (auto simp: call_handle_def)
    have "sched_inv (snd (start_night_pre_heating e v d1))"
      using start_night_pre_heating_empty(2,3) [OF p(1-4), of e v] p(5)
      by (simp add: sched_inv_def)
    moreover have "fire e h v d = snd (start_night_pre_heating e v d1)"
      using Some l StartNightPreHeating by (simp add: fire_def d1_def Let_def)
    ultimately show ?thesis by simp
  next
    case EndPreHeating
    with assms single have "night_heating_event d = Some h" "\<not> night_heating_calc_planned d"
      "\<not> night_heating_planned d" "night_heating_canceled d \<noteq> night_preheating d"
      by (auto simp: sched_inv_def after_start_def)
    with d1 have "sched_inv (end_pre_heating d1)"
      by (intro end_pre_heating_sched_inv) (auto simp: call_handle_def)
    moreover have "fire e h v d = end_pre_heating d1"
      using Some l EndPreHeating by (simp add: fire_def d1_def Let_def)
    ultimately show ?thesis by simp
  qed
qed

lemma step_sched_inv: "sched_inv d \<Longrightarrow> sched_inv (step e d ev)"
  by (cases ev) (simp_all add: step_def run_sched_inv fire_sched_inv)

lemma foldl_step_sched_inv: "sched_inv d \<Longrightarrow> sched_inv (foldl (step e) d evs)"
  by (induction evs arbitrary: d) (simp_all add: step_sched_inv)


lemmas eval_defs =
  step_def run_def fire_def night_pre_heating_def plan_start_night_pre_heating_def
  start_night_pre_heating_def end_pre_heating_def plan_end_def cancel_pre_heating_def
  boiler_logic_def boiler_power_cmd_def track_def call_handle_def
  calculate_boiler_heat_def calculate_battery_energy_def automatic_required_energy_def
  automatic_pv_forecast_def planned_to_past_def
  py_not_def py_round2_def py_round_def combine_def to_micros_def of_micros_def day_micros_def
  timedelta_minutes_def datetime_diff_def datetime_minus_def datetime_plus_def
  timedelta_seconds_def time_hour_def time_minute_def Let_def

lemmas example_defs =
  example_config_def idle_state_def sunny_sensors_def dull_sensors_def evening_env_def
  night_env_def hot_env_def cold_env_def start_env_def automatic_env_def
  calc_planned_state_def start_planned_state_def cancelled_state_def
  start_replanned_state_def preheat_active_state_def

lemma tick_plans_calculation:
  "step example_config idle_state (Tick evening_env) = calc_planned_state"
  by (simp add: eval_defs example_defs)

lemma calculation_plans_start:
  "step example_config calc_planned_state (Fire 0 night_env) = start_planned_state"
  by (simp add: eval_defs example_defs)

lemma hot_water_cancels:
  "step example_config start_planned_state (Fire 1 hot_env) = cancelled_state"
  by (simp add: eval_defs example_defs)

lemma early_start_replanned:
  "step example_config start_planned_state (Fire 1 cold_env) = start_replanned_state"
  by (simp add: eval_defs example_defs)

lemma start_preheats:
  "step example_config start_replanned_state (Fire 2 start_env) = preheat_active_state"
  by (simp add: eval_defs example_defs)

lemma idle_idle_state: "idle idle_state"
  by (simp add: idle_def count_true_flags idle_state_def)

text \<open>
  C3 (as stated, refuted). In the Idle state itself none of the three flags is set, and
  the same holds in the Cancelled state, reached from Idle with the switch on by a tick,
  the calculation and a start trigger that finds the water already hot.
\<close>

theorem scheduler_exactly_one_counterexample:
  "idle idle_state \<and> night_heating_switch idle_state
   \<and> count_true (take 3 (flags (foldl (step example_config) idle_state []))) \<noteq> 1
   \<and> count_true (take 3 (flags (foldl (step example_config) idle_state
        [Tick evening_env, Fire 0 night_env, Fire 1 hot_env]))) \<noteq> 1"
proof -
  have "foldl (step example_config) idle_state
          [Tick evening_env, Fire 0 night_env, Fire 1 hot_env] = cancelled_state"
    by (simp only: foldl_Cons foldl_Nil tick_plans_calculation calculation_plans_start
        hot_water_cancels)
  then show ?thesis
    using idle_idle_state
    by (simp add: flags_def count_true_def cancelled_state_def idle_state_def)
qed

text \<open>
  C3 (amended). Starting from the Idle state (all four flags false, no scheduler listener
  pending) with the feature switch on, after any sequence of control ticks and fired
  scheduler listeners, each with its sensor reads succeeding, at most one of the four
  flags \<open>night_heating_calc_planned\<close>, \<open>night_heating_planned\<close>, \<open>night_preheating\<close>,
  \<open>night_heating_canceled\<close> is true.
\<close>

theorem scheduler_at_most_one_flag:
  assumes "idle d" and "night_heating_switch d"
  shows "count_true (flags (foldl (step e) d evs)) \<le> 1"
  using assms(1) by (intro sched_inv_count foldl_step_sched_inv idle_sched_inv)

theorem scheduler_at_most_one_flag_witness:
  "idle idle_state \<and> night_heating_switch idle_state
   \<and> foldl (step example_config) idle_state
        [Tick evening_env, Fire 0 night_env, Fire 1 cold_env, Fire 2 start_env]
       = preheat_active_state
   \<and> flags preheat_active_state = [False, False, True, False]
   \<and> count_true (flags (foldl (step example_config) idle_state
        [Tick evening_env, Fire 0 night_env, Fire 1 cold_env, Fire 2 start_env])) \<le> 1"
proof -
  have sw: "night_heating_switch idle_state"
    by (simp add: idle_state_def)
  have run: "foldl (step example_config) idle_state
        [Tick evening_env, Fire 0 night_env, Fire 1 cold_env, Fire 2 start_env]
       = preheat_active_state"
    by (simp only: foldl_Cons foldl_Nil tick_plans_calculation calculation_plans_start
        early_start_replanned start_preheats)
  have fl: "flags preheat_active_state = [False, False, True, False]"
    by (simp add: flags_def preheat_active_state_def idle_state_def)
  from scheduler_at_most_one_flag [OF idle_idle_state sw, of example_config
      "[Tick evening_env, Fire 0 night_env, Fire 1 cold_env, Fire 2 start_env]"]
  show ?thesis
    using idle_idle_state sw run fl by simp
qed

section \<open>Properties of the feature switch\<close>

text \<open>
  C4 (as stated, refuted). Pre-heating is active and the hardware reports the element
  as not heating (the water has reached the pre-heat target, the mode is still MANUAL).
  Turning the feature switch off then sends no command to the actuator, not one: the
  off command is guarded by \<^verbatim>\<open>boiler_heating == "on"\<close>.
\<close>

theorem toggle_state_off_counterexample:
  "night_preheating preheat_active_state
   \<and> length (filter (\<lambda>c. c = SelectOption ''ANTIFREEZE'')
        (commands_issued preheat_active_state
           (toggle_state False ''off'' preheat_active_state))) \<noteq> 1"
  by (simp add: toggle_state_def not_awaited_def call_handle_def commands_issued_def
      preheat_active_state_def idle_state_def Let_def)

text \<open>
  C4 (amended). In a state the scheduler reaches from Idle in which pre-heating is
  active and the manager status is not \<^verbatim>\<open>Initializing\<close>, turning the feature switch
  off leaves no scheduler listener pending and resets all four flags to false; when the
  hardware heating status is not \<^verbatim>\<open>on\<close>, it sends no command to the actuator and
  leaves the commanded-on flag as it was.
\<close>

theorem toggle_state_off_resets:
  assumes "idle d0" and "d = foldl (step e) d0 evs"
    and "night_preheating d" and "manager_status_sensor d \<noteq> ''Initializing''"
  shows "listeners (toggle_state False boiler_heating d) = []
         \<and> flags (toggle_state False boiler_heating d) = [False, False, False, False]
         \<and> \<not> night_heating_switch (toggle_state False boiler_heating d)
         \<and> (boiler_heating \<noteq> ''on'' \<longrightarrow>
               commands_issued d (toggle_state False boiler_heating d) = []
               \<and> boiler_power_on (toggle_state False boiler_heating d) = boiler_power_on d)"
proof -
  have "sched_inv d"
    using assms(1,2) by (simp add: foldl_step_sched_inv idle_sched_inv)
  with assms(3) have l: "listeners d = []
      \<or> (\<exists>h tr. listeners d = [(h, EndPreHeating, tr)] \<and> night_heating_event d = Some h)"
    by (auto simp: sched_inv_def after_start_def)
  then show ?thesis
    using assms(4)
    by (auto simp: toggle_state_def Let_def call_handle_def flags_def commands_issued_def
        not_awaited_def
        split: option.splits)
qed

theorem toggle_state_off_resets_witness:
  "idle idle_state
   \<and> preheat_active_state = foldl (step example_config) idle_state
        [Tick evening_env, Fire 0 night_env, Fire 1 cold_env, Fire 2 start_env]
   \<and> night_preheating preheat_active_state
   \<and> manager_status_sensor preheat_active_state \<noteq> ''Initializing''
   \<and> listeners preheat_active_state = [(3, EndPreHeating, TimeChange 6 0)]
   \<and> listeners (toggle_state False ''off'' preheat_active_state) = []
   \<and> flags (toggle_state False ''off'' preheat_active_state) = [False, False, False, False]
   \<and> commands_issued preheat_active_state (toggle_state False ''off'' preheat_active_state) = []"
proof -
  have run: "preheat_active_state = foldl (step example_config) idle_state
        [Tick evening_env, Fire 0 night_env, Fire 1 cold_env, Fire 2 start_env]"
    by (simp only: foldl_Cons foldl_Nil tick_plans_calculation calculation_plans_start
        early_start_replanned start_preheats)
  have p: "night_preheating preheat_active_state"
    by (simp add: preheat_active_state_def)
  have st: "manager_status_sensor preheat_active_state \<noteq> ''Initializing''"
    by (simp add: preheat_active_state_def idle_state_def)
  have ls: "listeners preheat_active_state = [(3, EndPreHeating, TimeChange 6 0)]"
    by (simp add: preheat_active_state_def)
  from toggle_state_off_resets [OF idle_idle_state run p st, of "''off''"]
  show ?thesis
    using idle_idle_state run p st ls by simp
qed

text \<open>
  When the hardware heating status is \<^verbatim>\<open>on\<close>, switch.py line 84 calls
  \<^verbatim>\<open>_boiler_power(False)\<close> without \<^verbatim>\<open>await\<close> (select.py line 108 awaits the same
  call): no service call is made either, the mode stays MANUAL and \<open>boiler_power_on\<close>
  stays set.
\<close>

lemma toggle_state_off_not_awaited:
  "commands_issued preheat_active_state (toggle_state False ''on'' preheat_active_state) = []
   \<and> boiler_power_on (toggle_state False ''on'' preheat_active_state)
   \<and> listeners (toggle_state False ''on'' preheat_active_state) = []
   \<and> flags (toggle_state False ''on'' preheat_active_state) = [False, False, False, False]"
  by (simp add: toggle_state_def not_awaited_def call_handle_def commands_issued_def flags_def
      preheat_active_state_def idle_state_def Let_def)

section \<open>Properties of the forecast balance\<close>

text \<open>
  C5 (the code at the failing input). Day target 60, temperature variable 5, minimum
  boiler temperature 40 and pre-heat target 50: the minimum temperature is 55 and the
  rise is 5 degrees, 0.87 kWh for 150 l. The battery term is 1.01 kWh and the forecast
  1.5 kWh. The code computes a required energy of 1.01 kWh, the thermal term being zero,
  and starts pre-heating. The battery formula itself gives 0.72 kWh for 4800 Wh, SOC 50
  and target 65.
\<close>

theorem automatic_required_energy_evaluation:
  "max (sens_heating_temp (env_sensors automatic_env) - conf_temp_variable example_config)
       (conf_boiler_min_temp example_config) = 55
   \<and> calculate_boiler_heat (Some 2000) (Some 150) (Some 50) (Some 55) = Inr (0.87, 26.16)
   \<and> automatic_required_energy example_config automatic_env = Inr 1.01
   \<and> automatic_pv_forecast automatic_env / 1000 = 1.5
   \<and> step example_config start_replanned_state (Fire 2 automatic_env) = preheat_active_state
   \<and> calculate_battery_energy 4800 50 65 = 0.72"
  by (simp add: eval_defs example_defs)


end
